theory Spec2Isabelle
  imports Main
begin

section \<open>The implementors files of the alloc_wg documentation\<close>

text \<open>
  Each source file is one browser script: an immediately invoked function that builds an
  object \<open>implementors\<close>, fills its single property \<open>alloc_wg\<close> with an array literal of
  records, and hands the object to the page:
  \<^verbatim>\<open>
  (function() {var implementors = {};
  implementors["alloc_wg"] = [{text:"...",synthetic:true,types:["..."]}, ...];

              if (window.register_implementors) {
                  window.register_implementors(implementors);
              } else {
                  window.pending_implementors = implementors;
              }
          })()
  \<close>
  Two such files are modelled: \<open>implementors/core/marker/trait.Send.js\<close> (17 records) and
  the file \<open>part_000\<close> (8 records). Only the array literal differs between them.
\<close>

subsection \<open>Values\<close>

text \<open>One element of the array literal: an object with the three properties
  \<open>text\<close>, \<open>synthetic\<close> and \<open>types\<close>.\<close>

record implementor =
  "text" :: string
  synthetic :: bool
  types :: "string list"

text \<open>A plain object with string keys, in insertion order.\<close>

type_synonym 'v object = "(string \<times> 'v) list"

type_synonym table = "implementor list object"

text \<open>The object literal \<open>{}\<close>.\<close>

definition obj_empty :: "'v object" where
  "obj_empty = []"

text \<open>The assignment \<open>o[k] = v\<close>: an existing property keeps its place and takes the new
  value, a new property is added after the others.\<close>

fun obj_set :: "string \<Rightarrow> 'v \<Rightarrow> 'v object \<Rightarrow> 'v object" where
  "obj_set k v [] = [(k, v)]"
| "obj_set k v ((k', v') # ps) =
     (if k' = k then (k, v) # ps else (k', v') # obj_set k v ps)"

text \<open>The property names of an object, as \<open>Object.keys\<close> lists them.\<close>

definition obj_keys :: "'v object \<Rightarrow> string list" where
  "obj_keys ob = map fst ob"

text \<open>
  The values a property of \<open>window\<close> can hold. Numbers are kept as integers, with
  \<open>NaN\<close> apart: the script only tests a value for truthiness, where a number counts by
  being zero or not. A function is known by its identity; what it does when called is
  given by the host (below).
\<close>

datatype jsval =
    JUndefined
  | JNull
  | JBool bool
  | JNum int
  | JNaN
  | JStr string
  | JObj table
  | JFun nat

text \<open>The conversion to a boolean that \<open>if (...)\<close> applies.\<close>

fun truthy :: "jsval \<Rightarrow> bool" where
  "truthy JUndefined = False"
| "truthy JNull = False"
| "truthy (JBool b) = b"
| "truthy (JNum n) = (n \<noteq> 0)"
| "truthy JNaN = False"
| "truthy (JStr s) = (s \<noteq> [])"
| "truthy (JObj ob) = True"
| "truthy (JFun f) = True"

fun callable :: "jsval \<Rightarrow> bool" where
  "callable (JFun f) = True"
| "callable v = False"

subsection \<open>The host environment\<close>

text \<open>
  The global object, with the two properties the script reads and writes; every other
  property of the page is in the record's extension. A property that was never assigned
  reads as \<open>JUndefined\<close>.
\<close>

record window =
  register_implementors :: jsval
  pending_implementors :: jsval

text \<open>
  What calling a function of the page does: given the function, its argument and the
  state of the page, it either throws a value or returns with a new state. A script takes
  it as a parameter, since the functions belong to the page and not to the script.
\<close>

type_synonym 'w host = "nat \<Rightarrow> jsval \<Rightarrow> 'w \<Rightarrow> jsval + 'w"

text \<open>
  How a script can end abruptly: \<open>NotAFunction\<close> is the \<open>TypeError\<close> that the call
  expression \<open>window.register_implementors(implementors)\<close> raises itself when the value
  is not callable; \<open>Thrown v\<close> is a value thrown by the called function, passing through
  the script.
\<close>

datatype error = NotAFunction | Thrown jsval

text \<open>What a script does to the page, in order: a call of a page function with a table,
  or an assignment of a table to \<open>window.pending_implementors\<close>.\<close>

datatype action = Invoke nat table | StorePending table

fun payload :: "action \<Rightarrow> table" where
  "payload (Invoke f t) = t"
| "payload (StorePending t) = t"

fun is_Invoke :: "action \<Rightarrow> bool" where
  "is_Invoke (Invoke f t) = True"
| "is_Invoke (StorePending t) = False"

fun is_StorePending :: "action \<Rightarrow> bool" where
  "is_StorePending (StorePending t) = True"
| "is_StorePending (Invoke f t) = False"

subsection \<open>The hand-off\<close>

text \<open>
  The \<open>if\<close> statement that ends both files, with the table built before it as
  \<open>implementors\<close>. The result is the list of the script's actions and either the error
  that ended it or the state of the page after it.
\<close>

definition hand_off ::
  "table \<Rightarrow> ('w window_scheme) host \<Rightarrow> 'w window_scheme
     \<Rightarrow> action list \<times> (error + 'w window_scheme)" where
  "hand_off implementors host window =
     (if truthy (register_implementors window) then
        (case register_implementors window of
           JFun f \<Rightarrow>
             ([Invoke f implementors],
              case host f (JObj implementors) window of
                Inl v \<Rightarrow> Inl (Thrown v)
              | Inr window' \<Rightarrow> Inr window')
         | _ \<Rightarrow> ([], Inl NotAFunction))
      else
        ([StorePending implementors],
         Inr (window\<lparr>pending_implementors := JObj implementors\<rparr>)))"

subsection \<open>The table of \<open>trait.Send.js\<close>\<close>

text \<open>The 17 elements of the array literal, in the order of the file.\<close>

definition Send_00 :: implementor where
  \<open>Send_00 = \<lparr>
     text = ''impl <a class="trait" href="https://doc.rust-lang.org/nightly/core/marker/trait.Send.html" title="trait core::marker::Send">Send</a> for <a class="struct" href="alloc_wg/alloc/struct.LayoutErr.html" title="struct alloc_wg::alloc::LayoutErr">LayoutErr</a>'',
     synthetic = True,
     types = [''alloc_wg::alloc::layout::LayoutErr'']\<rparr>\<close>

definition Send_01 :: implementor where
  \<open>Send_01 = \<lparr>
     text = ''impl <a class="trait" href="https://doc.rust-lang.org/nightly/core/marker/trait.Send.html" title="trait core::marker::Send">Send</a> for <a class="struct" href="alloc_wg/alloc/struct.NonZeroLayout.html" title="struct alloc_wg::alloc::NonZeroLayout">NonZeroLayout</a>'',
     synthetic = True,
     types = [''alloc_wg::alloc::layout::NonZeroLayout'']\<rparr>\<close>

definition Send_02 :: implementor where
  \<open>Send_02 = \<lparr>
     text = ''impl <a class="trait" href="https://doc.rust-lang.org/nightly/core/marker/trait.Send.html" title="trait core::marker::Send">Send</a> for <a class="struct" href="alloc_wg/alloc/struct.CapacityOverflow.html" title="struct alloc_wg::alloc::CapacityOverflow">CapacityOverflow</a>'',
     synthetic = True,
     types = [''alloc_wg::alloc::CapacityOverflow'']\<rparr>\<close>

definition Send_03 :: implementor where
  \<open>Send_03 = \<lparr>
     text = ''impl <a class="trait" href="https://doc.rust-lang.org/nightly/core/marker/trait.Send.html" title="trait core::marker::Send">Send</a> for <a class="struct" href="alloc_wg/alloc/struct.AllocErr.html" title="struct alloc_wg::alloc::AllocErr">AllocErr</a>'',
     synthetic = True,
     types = [''alloc_wg::alloc::AllocErr'']\<rparr>\<close>

definition Send_04 :: implementor where
  \<open>Send_04 = \<lparr>
     text = ''impl <a class="trait" href="https://doc.rust-lang.org/nightly/core/marker/trait.Send.html" title="trait core::marker::Send">Send</a> for <a class="struct" href="alloc_wg/alloc/struct.Global.html" title="struct alloc_wg::alloc::Global">Global</a>'',
     synthetic = True,
     types = [''alloc_wg::alloc::Global'']\<rparr>\<close>

definition Send_05 :: implementor where
  \<open>Send_05 = \<lparr>
     text = ''impl&lt;A&gt; <a class="trait" href="https://doc.rust-lang.org/nightly/core/marker/trait.Send.html" title="trait core::marker::Send">Send</a> for <a class="enum" href="alloc_wg/collections/enum.CollectionAllocErr.html" title="enum alloc_wg::collections::CollectionAllocErr">CollectionAllocErr</a>&lt;A&gt; <span class="where fmt-newline">where<br>&nbsp;&nbsp;&nbsp;&nbsp;&lt;A as <a class="trait" href="alloc_wg/alloc/trait.AllocRef.html" title="trait alloc_wg::alloc::AllocRef">AllocRef</a>&gt;::<a class="type" href="alloc_wg/alloc/trait.AllocRef.html#associatedtype.Error" title="type alloc_wg::alloc::AllocRef::Error">Error</a>: <a class="trait" href="https://doc.rust-lang.org/nightly/core/marker/trait.Send.html" title="trait core::marker::Send">Send</a>,&nbsp;</span>'',
     synthetic = True,
     types = [''alloc_wg::collections::CollectionAllocErr'']\<rparr>\<close>

definition Send_06 :: implementor where
  \<open>Send_06 = \<lparr>
     text = ''impl&lt;T, A&gt; <a class="trait" href="https://doc.rust-lang.org/nightly/core/marker/trait.Send.html" title="trait core::marker::Send">Send</a> for <a class="struct" href="alloc_wg/raw_vec/struct.RawVec.html" title="struct alloc_wg::raw_vec::RawVec">RawVec</a>&lt;T, A&gt; <span class="where fmt-newline">where<br>&nbsp;&nbsp;&nbsp;&nbsp;T: <a class="trait" href="https://doc.rust-lang.org/nightly/core/marker/trait.Send.html" title="trait core::marker::Send">Send</a>,<br>&nbsp;&nbsp;&nbsp;&nbsp;&lt;A as <a class="trait" href="alloc_wg/alloc/trait.DeallocRef.html" title="trait alloc_wg::alloc::DeallocRef">DeallocRef</a>&gt;::<a class="type" href="alloc_wg/alloc/trait.DeallocRef.html#associatedtype.BuildAlloc" title="type alloc_wg::alloc::DeallocRef::BuildAlloc">BuildAlloc</a>: <a class="trait" href="https://doc.rust-lang.org/nightly/core/marker/trait.Send.html" title="trait core::marker::Send">Send</a>,&nbsp;</span>'',
     synthetic = True,
     types = [''alloc_wg::raw_vec::RawVec'']\<rparr>\<close>

definition Send_07 :: implementor where
  \<open>Send_07 = \<lparr>
     text = ''impl&lt;A&gt; <a class="trait" href="https://doc.rust-lang.org/nightly/core/marker/trait.Send.html" title="trait core::marker::Send">Send</a> for <a class="struct" href="alloc_wg/string/struct.String.html" title="struct alloc_wg::string::String">String</a>&lt;A&gt; <span class="where fmt-newline">where<br>&nbsp;&nbsp;&nbsp;&nbsp;&lt;A as <a class="trait" href="alloc_wg/alloc/trait.DeallocRef.html" title="trait alloc_wg::alloc::DeallocRef">DeallocRef</a>&gt;::<a class="type" href="alloc_wg/alloc/trait.DeallocRef.html#associatedtype.BuildAlloc" title="type alloc_wg::alloc::DeallocRef::BuildAlloc">BuildAlloc</a>: <a class="trait" href="https://doc.rust-lang.org/nightly/core/marker/trait.Send.html" title="trait core::marker::Send">Send</a>,&nbsp;</span>'',
     synthetic = True,
     types = [''alloc_wg::string::String'']\<rparr>\<close>

definition Send_08 :: implementor where
  \<open>Send_08 = \<lparr>
     text = ''impl&lt;A&gt; <a class="trait" href="https://doc.rust-lang.org/nightly/core/marker/trait.Send.html" title="trait core::marker::Send">Send</a> for <a class="struct" href="alloc_wg/string/struct.FromUtf8Error.html" title="struct alloc_wg::string::FromUtf8Error">FromUtf8Error</a>&lt;A&gt; <span class="where fmt-newline">where<br>&nbsp;&nbsp;&nbsp;&nbsp;&lt;A as <a class="trait" href="alloc_wg/alloc/trait.DeallocRef.html" title="trait alloc_wg::alloc::DeallocRef">DeallocRef</a>&gt;::<a class="type" href="alloc_wg/alloc/trait.DeallocRef.html#associatedtype.BuildAlloc" title="type alloc_wg::alloc::DeallocRef::BuildAlloc">BuildAlloc</a>: <a class="trait" href="https://doc.rust-lang.org/nightly/core/marker/trait.Send.html" title="trait core::marker::Send">Send</a>,&nbsp;</span>'',
     synthetic = True,
     types = [''alloc_wg::string::FromUtf8Error'']\<rparr>\<close>

definition Send_09 :: implementor where
  \<open>Send_09 = \<lparr>
     text = ''impl <a class="trait" href="https://doc.rust-lang.org/nightly/core/marker/trait.Send.html" title="trait core::marker::Send">Send</a> for <a class="struct" href="alloc_wg/string/struct.FromUtf16Error.html" title="struct alloc_wg::string::FromUtf16Error">FromUtf16Error</a>'',
     synthetic = True,
     types = [''alloc_wg::string::FromUtf16Error'']\<rparr>\<close>

definition Send_10 :: implementor where
  \<open>Send_10 = \<lparr>
     text = ''impl&lt;T, A&gt; <a class="trait" href="https://doc.rust-lang.org/nightly/core/marker/trait.Send.html" title="trait core::marker::Send">Send</a> for <a class="struct" href="alloc_wg/vec/struct.Vec.html" title="struct alloc_wg::vec::Vec">Vec</a>&lt;T, A&gt; <span class="where fmt-newline">where<br>&nbsp;&nbsp;&nbsp;&nbsp;T: <a class="trait" href="https://doc.rust-lang.org/nightly/core/marker/trait.Send.html" title="trait core::marker::Send">Send</a>,<br>&nbsp;&nbsp;&nbsp;&nbsp;&lt;A as <a class="trait" href="alloc_wg/alloc/trait.DeallocRef.html" title="trait alloc_wg::alloc::DeallocRef">DeallocRef</a>&gt;::<a class="type" href="alloc_wg/alloc/trait.DeallocRef.html#associatedtype.BuildAlloc" title="type alloc_wg::alloc::DeallocRef::BuildAlloc">BuildAlloc</a>: <a class="trait" href="https://doc.rust-lang.org/nightly/core/marker/trait.Send.html" title="trait core::marker::Send">Send</a>,&nbsp;</span>'',
     synthetic = True,
     types = [''alloc_wg::vec::Vec'']\<rparr>\<close>

definition Send_11 :: implementor where
  \<open>Send_11 = \<lparr>
     text = ''impl&lt;\'a, I, A&gt; <a class="trait" href="https://doc.rust-lang.org/nightly/core/marker/trait.Send.html" title="trait core::marker::Send">Send</a> for <a class="struct" href="alloc_wg/vec/struct.Splice.html" title="struct alloc_wg::vec::Splice">Splice</a>&lt;\'a, I, A&gt; <span class="where fmt-newline">where<br>&nbsp;&nbsp;&nbsp;&nbsp;I: <a class="trait" href="https://doc.rust-lang.org/nightly/core/marker/trait.Send.html" title="trait core::marker::Send">Send</a>,<br>&nbsp;&nbsp;&nbsp;&nbsp;&lt;I as <a class="trait" href="https://doc.rust-lang.org/nightly/core/iter/traits/iterator/trait.Iterator.html" title="trait core::iter::traits::iterator::Iterator">Iterator</a>&gt;::<a class="type" href="https://doc.rust-lang.org/nightly/core/iter/traits/iterator/trait.Iterator.html#associatedtype.Item" title="type core::iter::traits::iterator::Iterator::Item">Item</a>: <a class="trait" href="https://doc.rust-lang.org/nightly/core/marker/trait.Send.html" title="trait core::marker::Send">Send</a>,&nbsp;</span>'',
     synthetic = True,
     types = [''alloc_wg::vec::Splice'']\<rparr>\<close>

definition Send_12 :: implementor where
  \<open>Send_12 = \<lparr>
     text = ''impl&lt;\'a, T, F, A&gt; <a class="trait" href="https://doc.rust-lang.org/nightly/core/marker/trait.Send.html" title="trait core::marker::Send">Send</a> for <a class="struct" href="alloc_wg/vec/struct.DrainFilter.html" title="struct alloc_wg::vec::DrainFilter">DrainFilter</a>&lt;\'a, T, F, A&gt; <span class="where fmt-newline">where<br>&nbsp;&nbsp;&nbsp;&nbsp;F: <a class="trait" href="https://doc.rust-lang.org/nightly/core/marker/trait.Send.html" title="trait core::marker::Send">Send</a>,<br>&nbsp;&nbsp;&nbsp;&nbsp;T: <a class="trait" href="https://doc.rust-lang.org/nightly/core/marker/trait.Send.html" title="trait core::marker::Send">Send</a>,<br>&nbsp;&nbsp;&nbsp;&nbsp;&lt;A as <a class="trait" href="alloc_wg/alloc/trait.DeallocRef.html" title="trait alloc_wg::alloc::DeallocRef">DeallocRef</a>&gt;::<a class="type" href="alloc_wg/alloc/trait.DeallocRef.html#associatedtype.BuildAlloc" title="type alloc_wg::alloc::DeallocRef::BuildAlloc">BuildAlloc</a>: <a class="trait" href="https://doc.rust-lang.org/nightly/core/marker/trait.Send.html" title="trait core::marker::Send">Send</a>,&nbsp;</span>'',
     synthetic = True,
     types = [''alloc_wg::vec::DrainFilter'']\<rparr>\<close>

definition Send_13 :: implementor where
  \<open>Send_13 = \<lparr>
     text = ''impl&lt;T:&nbsp;?<a class="trait" href="https://doc.rust-lang.org/nightly/core/marker/trait.Sized.html" title="trait core::marker::Sized">Sized</a>, A:&nbsp;<a class="trait" href="alloc_wg/alloc/trait.DeallocRef.html" title="trait alloc_wg::alloc::DeallocRef">DeallocRef</a> + <a class="trait" href="https://doc.rust-lang.org/nightly/core/marker/trait.Send.html" title="trait core::marker::Send">Send</a>&gt; <a class="trait" href="https://doc.rust-lang.org/nightly/core/marker/trait.Send.html" title="trait core::marker::Send">Send</a> for <a class="struct" href="alloc_wg/boxed/struct.Box.html" title="struct alloc_wg::boxed::Box">Box</a>&lt;T, A&gt;'',
     synthetic = False,
     types = [''alloc_wg::boxed::Box'']\<rparr>\<close>

definition Send_14 :: implementor where
  \<open>Send_14 = \<lparr>
     text = ''impl&lt;\'_, A:&nbsp;<a class="trait" href="alloc_wg/alloc/trait.DeallocRef.html" title="trait alloc_wg::alloc::DeallocRef">DeallocRef</a>&gt; <a class="trait" href="https://doc.rust-lang.org/nightly/core/marker/trait.Send.html" title="trait core::marker::Send">Send</a> for <a class="struct" href="alloc_wg/string/struct.Drain.html" title="struct alloc_wg::string::Drain">Drain</a>&lt;\'_, A&gt;'',
     synthetic = False,
     types = [''alloc_wg::string::Drain'']\<rparr>\<close>

definition Send_15 :: implementor where
  \<open>Send_15 = \<lparr>
     text = ''impl&lt;T:&nbsp;<a class="trait" href="https://doc.rust-lang.org/nightly/core/marker/trait.Send.html" title="trait core::marker::Send">Send</a>&gt; <a class="trait" href="https://doc.rust-lang.org/nightly/core/marker/trait.Send.html" title="trait core::marker::Send">Send</a> for <a class="struct" href="alloc_wg/vec/struct.IntoIter.html" title="struct alloc_wg::vec::IntoIter">IntoIter</a>&lt;T&gt;'',
     synthetic = False,
     types = [''alloc_wg::vec::IntoIter'']\<rparr>\<close>

definition Send_16 :: implementor where
  \<open>Send_16 = \<lparr>
     text = ''impl&lt;\'_, T:&nbsp;<a class="trait" href="https://doc.rust-lang.org/nightly/core/marker/trait.Send.html" title="trait core::marker::Send">Send</a>, A:&nbsp;<a class="trait" href="alloc_wg/alloc/trait.DeallocRef.html" title="trait alloc_wg::alloc::DeallocRef">DeallocRef</a>&gt; <a class="trait" href="https://doc.rust-lang.org/nightly/core/marker/trait.Send.html" title="trait core::marker::Send">Send</a> for <a class="struct" href="alloc_wg/vec/struct.Drain.html" title="struct alloc_wg::vec::Drain">Drain</a>&lt;\'_, T, A&gt;'',
     synthetic = False,
     types = [''alloc_wg::vec::Drain'']\<rparr>\<close>

text \<open>\<open>var implementors = {}; implementors["alloc_wg"] = [...];\<close>\<close>

definition implementors_trait_Send :: table where
  "implementors_trait_Send =
     obj_set ''alloc_wg''
       [Send_00, Send_01, Send_02, Send_03, Send_04, Send_05, Send_06, Send_07, Send_08,
        Send_09, Send_10, Send_11, Send_12, Send_13, Send_14, Send_15, Send_16]
       obj_empty"

text \<open>The whole script: it takes no argument; the page is all it sees.\<close>

definition load_trait_Send ::
  "('w window_scheme) host \<Rightarrow> 'w window_scheme
     \<Rightarrow> action list \<times> (error + 'w window_scheme)" where
  "load_trait_Send host window = hand_off implementors_trait_Send host window"

subsection \<open>The table of \<open>part_000\<close>\<close>

text \<open>The 8 elements of the array literal, in the order of the file.\<close>

definition part_000_00 :: implementor where
  \<open>part_000_00 = \<lparr>
     text = ''impl&lt;T:&nbsp;?<a class="trait" href="https://doc.rust-lang.org/nightly/core/marker/trait.Sized.html" title="trait core::marker::Sized">Sized</a>, A:&nbsp;<a class="trait" href="alloc_wg/alloc/trait.DeallocRef.html" title="trait alloc_wg::alloc::DeallocRef">DeallocRef</a>&gt; <a class="trait" href="https://doc.rust-lang.org/nightly/core/ops/drop/trait.Drop.html" title="trait core::ops::drop::Drop">Drop</a> for <a class="struct" href="alloc_wg/boxed/struct.Box.html" title="struct alloc_wg::boxed::Box">Box</a>&lt;T, A&gt;'',
     synthetic = False,
     types = [''alloc_wg::boxed::Box'']\<rparr>\<close>

definition part_000_01 :: implementor where
  \<open>part_000_01 = \<lparr>
     text = ''impl&lt;T, A:&nbsp;<a class="trait" href="alloc_wg/alloc/trait.DeallocRef.html" title="trait alloc_wg::alloc::DeallocRef">DeallocRef</a>&gt; <a class="trait" href="https://doc.rust-lang.org/nightly/core/ops/drop/trait.Drop.html" title="trait core::ops::drop::Drop">Drop</a> for <a class="struct" href="alloc_wg/raw_vec/struct.RawVec.html" title="struct alloc_wg::raw_vec::RawVec">RawVec</a>&lt;T, A&gt;'',
     synthetic = False,
     types = [''alloc_wg::raw_vec::RawVec'']\<rparr>\<close>

definition part_000_02 :: implementor where
  \<open>part_000_02 = \<lparr>
     text = ''impl&lt;\'_, A:&nbsp;<a class="trait" href="alloc_wg/alloc/trait.DeallocRef.html" title="trait alloc_wg::alloc::DeallocRef">DeallocRef</a>&gt; <a class="trait" href="https://doc.rust-lang.org/nightly/core/ops/drop/trait.Drop.html" title="trait core::ops::drop::Drop">Drop</a> for <a class="struct" href="alloc_wg/string/struct.Drain.html" title="struct alloc_wg::string::Drain">Drain</a>&lt;\'_, A&gt;'',
     synthetic = False,
     types = [''alloc_wg::string::Drain'']\<rparr>\<close>

definition part_000_03 :: implementor where
  \<open>part_000_03 = \<lparr>
     text = ''impl&lt;T, A:&nbsp;<a class="trait" href="alloc_wg/alloc/trait.DeallocRef.html" title="trait alloc_wg::alloc::DeallocRef">DeallocRef</a>&gt; <a class="trait" href="https://doc.rust-lang.org/nightly/core/ops/drop/trait.Drop.html" title="trait core::ops::drop::Drop">Drop</a> for <a class="struct" href="alloc_wg/vec/struct.Vec.html" title="struct alloc_wg::vec::Vec">Vec</a>&lt;T, A&gt;'',
     synthetic = False,
     types = [''alloc_wg::vec::Vec'']\<rparr>\<close>

definition part_000_04 :: implementor where
  \<open>part_000_04 = \<lparr>
     text = ''impl&lt;T&gt; <a class="trait" href="https://doc.rust-lang.org/nightly/core/ops/drop/trait.Drop.html" title="trait core::ops::drop::Drop">Drop</a> for <a class="struct" href="alloc_wg/vec/struct.IntoIter.html" title="struct alloc_wg::vec::IntoIter">IntoIter</a>&lt;T&gt;'',
     synthetic = False,
     types = [''alloc_wg::vec::IntoIter'']\<rparr>\<close>

definition part_000_05 :: implementor where
  \<open>part_000_05 = \<lparr>
     text = ''impl&lt;\'_, T, A:&nbsp;<a class="trait" href="alloc_wg/alloc/trait.DeallocRef.html" title="trait alloc_wg::alloc::DeallocRef">DeallocRef</a>&gt; <a class="trait" href="https://doc.rust-lang.org/nightly/core/ops/drop/trait.Drop.html" title="trait core::ops::drop::Drop">Drop</a> for <a class="struct" href="alloc_wg/vec/struct.Drain.html" title="struct alloc_wg::vec::Drain">Drain</a>&lt;\'_, T, A&gt;'',
     synthetic = False,
     types = [''alloc_wg::vec::Drain'']\<rparr>\<close>

definition part_000_06 :: implementor where
  \<open>part_000_06 = \<lparr>
     text = ''impl&lt;\'_, I:&nbsp;<a class="trait" href="https://doc.rust-lang.org/nightly/core/iter/traits/iterator/trait.Iterator.html" title="trait core::iter::traits::iterator::Iterator">Iterator</a>, A&gt; <a class="trait" href="https://doc.rust-lang.org/nightly/core/ops/drop/trait.Drop.html" title="trait core::ops::drop::Drop">Drop</a> for <a class="struct" href="alloc_wg/vec/struct.Splice.html" title="struct alloc_wg::vec::Splice">Splice</a>&lt;\'_, I, A&gt; <span class="where fmt-newline">where<br>&nbsp;&nbsp;&nbsp;&nbsp;A: <a class="trait" href="alloc_wg/alloc/trait.ReallocRef.html" title="trait alloc_wg::alloc::ReallocRef">ReallocRef</a>,&nbsp;</span>'',
     synthetic = False,
     types = [''alloc_wg::vec::Splice'']\<rparr>\<close>

definition part_000_07 :: implementor where
  \<open>part_000_07 = \<lparr>
     text = ''impl&lt;\'_, T, F, A:&nbsp;<a class="trait" href="alloc_wg/alloc/trait.DeallocRef.html" title="trait alloc_wg::alloc::DeallocRef">DeallocRef</a>&gt; <a class="trait" href="https://doc.rust-lang.org/nightly/core/ops/drop/trait.Drop.html" title="trait core::ops::drop::Drop">Drop</a> for <a class="struct" href="alloc_wg/vec/struct.DrainFilter.html" title="struct alloc_wg::vec::DrainFilter">DrainFilter</a>&lt;\'_, T, F, A&gt; <span class="where fmt-newline">where<br>&nbsp;&nbsp;&nbsp;&nbsp;F: <a class="trait" href="https://doc.rust-lang.org/nightly/core/ops/function/trait.FnMut.html" title="trait core::ops::function::FnMut">FnMut</a>(<a class="primitive" href="https://doc.rust-lang.org/nightly/std/primitive.reference.html">&amp;mut </a>T) -&gt; <a class="primitive" href="https://doc.rust-lang.org/nightly/std/primitive.bool.html">bool</a>,&nbsp;</span>'',
     synthetic = False,
     types = [''alloc_wg::vec::DrainFilter'']\<rparr>\<close>

text \<open>\<open>var implementors = {}; implementors["alloc_wg"] = [...];\<close>\<close>

definition implementors_part_000 :: table where
  "implementors_part_000 =
     obj_set ''alloc_wg''
       [part_000_00, part_000_01, part_000_02, part_000_03, part_000_04, part_000_05,
        part_000_06, part_000_07]
       obj_empty"

text \<open>The whole script: it takes no argument; the page is all it sees.\<close>

definition load_part_000 ::
  "('w window_scheme) host \<Rightarrow> 'w window_scheme
     \<Rightarrow> action list \<times> (error + 'w window_scheme)" where
  "load_part_000 host window = hand_off implementors_part_000 host window"

subsection \<open>Paths and identifiers\<close>

text \<open>
  The vocabulary for what the strings of a table are: an identifier is a letter or an
  underscore followed by letters, digits and underscores; a path is a sequence of
  segments joined by \<open>::\<close>, as in \<open>alloc_wg::vec::Vec\<close>.
\<close>

definition ident_start :: "char \<Rightarrow> bool" where
  "ident_start c =
     (c \<in> set ''abcdefghijklmnopqrstuvwxyzABCDEFGHIJKLMNOPQRSTUVWXYZ_'')"

definition ident_char :: "char \<Rightarrow> bool" where
  "ident_char c = (ident_start c \<or> c \<in> set ''0123456789'')"

fun is_identifier :: "string \<Rightarrow> bool" where
  "is_identifier [] = False"
| "is_identifier (c # cs) = (ident_start c \<and> list_all ident_char cs)"

text \<open>Splitting at every \<open>::\<close>, from the left; \<open>seg\<close> is the segment read so far,
  reversed.\<close>

fun split_from :: "string \<Rightarrow> string \<Rightarrow> string list" where
  "split_from seg [] = [rev seg]"
| "split_from seg [c] = [rev (c # seg)]"
| "split_from seg (c # d # cs) =
     (if c = CHR '':'' \<and> d = CHR '':'' then rev seg # split_from [] cs
      else split_from (c # seg) (d # cs))"

definition split_path :: "string \<Rightarrow> string list" where
  "split_path s = split_from [] s"

text \<open>A fully-qualified path of an item names the crate and at least one more level:
  two or more segments, each an identifier.\<close>

definition qualified_path :: "string \<Rightarrow> bool" where
  "qualified_path s =
     (2 \<le> length (split_path s) \<and> list_all is_identifier (split_path s))"

text \<open>All records of a table, key by key.\<close>

definition records :: "table \<Rightarrow> implementor list" where
  "records t = concat (map snd t)"

subsection \<open>Pages to run the scripts on\<close>

text \<open>A consumer that returns at once and leaves the page as it is.\<close>

definition quiet_host :: "window host" where
  "quiet_host f arg w = Inr w"

text \<open>A page on which nothing was assigned yet.\<close>

definition fresh_page :: window where
  "fresh_page = \<lparr>register_implementors = JUndefined, pending_implementors = JUndefined\<rparr>"

text \<open>A page whose main script has installed its consumer, the function number 7.\<close>

definition ready_page :: window where
  "ready_page = \<lparr>register_implementors = JFun 7, pending_implementors = JUndefined\<rparr>"

text \<open>Pages on which \<open>register_implementors\<close> is defined but is not a function.\<close>

definition null_page :: window where
  "null_page = \<lparr>register_implementors = JNull, pending_implementors = JUndefined\<rparr>"

definition flag_page :: window where
  "flag_page = \<lparr>register_implementors = JBool True, pending_implementors = JUndefined\<rparr>"

subsection \<open>A page that records what its consumer receives\<close>

text \<open>
  To observe a hand-off from the side of the page, the page keeps in \<open>calls\<close> the calls
  its consumer has received, oldest first: the function called and the argument it got.
\<close>

record probed_window = window +
  calls :: "(nat \<times> jsval) list"

text \<open>A consumer that adds each call it receives to \<open>calls\<close> and touches nothing else.\<close>

definition recording_host :: "probed_window host" where
  "recording_host f arg w = Inr (w\<lparr>calls := calls w @ [(f, arg)]\<rparr>)"

text \<open>
  What a run has handed off, read from the page before and the page after it: the
  arguments of the calls recorded during the run when the consumer slot was truthy,
  the content of the pending slot after the run otherwise.
\<close>

definition delivered :: "probed_window \<Rightarrow> probed_window \<Rightarrow> jsval list" where
  "delivered before after =
     (if truthy (register_implementors before)
      then map snd (drop (length (calls before)) (calls after))
      else [pending_implementors after])"

definition probed_fresh :: probed_window where
  "probed_fresh =
     \<lparr>register_implementors = JUndefined, pending_implementors = JUndefined, calls = []\<rparr>"

definition probed_ready :: probed_window where
  "probed_ready =
     \<lparr>register_implementors = JFun 7, pending_implementors = JUndefined, calls = []\<rparr>"

text \<open>A page whose \<open>register_implementors\<close> is the number 1.\<close>

definition number_page :: window where
  "number_page = \<lparr>register_implementors = JNum 1, pending_implementors = JUndefined\<rparr>"

section \<open>Properties\<close>

subsection \<open>The three ways the hand-off can go\<close>

lemma hand_off_consumer:
  "register_implementors window = JFun f \<Longrightarrow>
   hand_off t host window =
     ([Invoke f t],
      case host f (JObj t) window of Inl v \<Rightarrow> Inl (Thrown v) | Inr window' \<Rightarrow> Inr window')"
  by (simp add: hand_off_def)

lemma hand_off_absent:
  "\<not> truthy (register_implementors window) \<Longrightarrow>
   hand_off t host window =
     ([StorePending t], Inr (window\<lparr>pending_implementors := JObj t\<rparr>))"
  by (simp add: hand_off_def)

lemma hand_off_not_callable:
  "truthy (register_implementors window) \<Longrightarrow> \<not> callable (register_implementors window) \<Longrightarrow>
   hand_off t host window = ([], Inl NotAFunction)"
  by (cases "register_implementors window") (simp_all add: hand_off_def)

lemma callable_JFun: "callable v \<Longrightarrow> \<exists>f. v = JFun f"
  by (cases v) simp_all

lemma hand_off_actions:
  "fst (hand_off t host window) = [] \<or>
   (\<exists>f. fst (hand_off t host window) = [Invoke f t]) \<or>
   fst (hand_off t host window) = [StorePending t]"
  by (cases "register_implementors window") (simp_all add: hand_off_def)

lemma hand_off_payload:
  "a \<in> set (fst (hand_off t host window)) \<Longrightarrow> payload a = t"
  using hand_off_actions [of t host window] by auto

subsection \<open>The two tables, written out\<close>

lemma trait_Send_table:
  "implementors_trait_Send =
     [(''alloc_wg'',
       [Send_00, Send_01, Send_02, Send_03, Send_04, Send_05, Send_06, Send_07, Send_08,
        Send_09, Send_10, Send_11, Send_12, Send_13, Send_14, Send_15, Send_16])]"
  by (simp add: implementors_trait_Send_def obj_empty_def)

lemma trait_Send_records:
  "records implementors_trait_Send =
     [Send_00, Send_01, Send_02, Send_03, Send_04, Send_05, Send_06, Send_07, Send_08,
      Send_09, Send_10, Send_11, Send_12, Send_13, Send_14, Send_15, Send_16]"
  by (simp add: records_def trait_Send_table)

lemma trait_Send_types:
  "map types (records implementors_trait_Send) =
     [[''alloc_wg::alloc::layout::LayoutErr''],
      [''alloc_wg::alloc::layout::NonZeroLayout''],
      [''alloc_wg::alloc::CapacityOverflow''],
      [''alloc_wg::alloc::AllocErr''],
      [''alloc_wg::alloc::Global''],
      [''alloc_wg::collections::CollectionAllocErr''],
      [''alloc_wg::raw_vec::RawVec''],
      [''alloc_wg::string::String''],
      [''alloc_wg::string::FromUtf8Error''],
      [''alloc_wg::string::FromUtf16Error''],
      [''alloc_wg::vec::Vec''],
      [''alloc_wg::vec::Splice''],
      [''alloc_wg::vec::DrainFilter''],
      [''alloc_wg::boxed::Box''],
      [''alloc_wg::string::Drain''],
      [''alloc_wg::vec::IntoIter''],
      [''alloc_wg::vec::Drain'']]"
  by (simp add: trait_Send_records
      Send_00_def Send_01_def Send_02_def Send_03_def Send_04_def Send_05_def Send_06_def
      Send_07_def Send_08_def Send_09_def Send_10_def Send_11_def Send_12_def Send_13_def
      Send_14_def Send_15_def Send_16_def)

lemma part_000_table:
  "implementors_part_000 =
     [(''alloc_wg'',
       [part_000_00, part_000_01, part_000_02, part_000_03, part_000_04, part_000_05,
        part_000_06, part_000_07])]"
  by (simp add: implementors_part_000_def obj_empty_def)

lemma part_000_records:
  "records implementors_part_000 =
     [part_000_00, part_000_01, part_000_02, part_000_03, part_000_04, part_000_05,
      part_000_06, part_000_07]"
  by (simp add: records_def part_000_table)

lemma part_000_types:
  "map types (records implementors_part_000) =
     [[''alloc_wg::boxed::Box''],
      [''alloc_wg::raw_vec::RawVec''],
      [''alloc_wg::string::Drain''],
      [''alloc_wg::vec::Vec''],
      [''alloc_wg::vec::IntoIter''],
      [''alloc_wg::vec::Drain''],
      [''alloc_wg::vec::Splice''],
      [''alloc_wg::vec::DrainFilter'']]"
  by (simp add: part_000_records
      part_000_00_def part_000_01_def part_000_02_def part_000_03_def part_000_04_def
      part_000_05_def part_000_06_def part_000_07_def)

lemma tables_differ: "implementors_trait_Send \<noteq> implementors_part_000"
proof
  assume "implementors_trait_Send = implementors_part_000"
  then have "length (records implementors_trait_Send) = length (records implementors_part_000)"
    by simp
  then show False
    by (simp add: trait_Send_records part_000_records)
qed

subsection \<open>Delivery to a consumer that is present\<close>

text \<open>
  Claim C1. When \<open>window.register_implementors\<close> holds a function at load time, the
  script calls it during the load, exactly once, with the table as its argument; the
  script itself makes no assignment to \<open>window.pending_implementors\<close>, and the page after
  the load is the page the consumer returned.
\<close>

theorem consumer_present_invoked_once:
  fixes window :: "'w window_scheme"
  assumes "register_implementors window = JFun f"
  shows "fst (load_trait_Send host window) = [Invoke f implementors_trait_Send]
       \<and> snd (load_trait_Send host window) =
           (case host f (JObj implementors_trait_Send) window of
              Inl v \<Rightarrow> Inl (Thrown v) | Inr window' \<Rightarrow> Inr window')
       \<and> filter is_StorePending (fst (load_trait_Send host window)) = []
       \<and> fst (load_part_000 host window) = [Invoke f implementors_part_000]
       \<and> snd (load_part_000 host window) =
           (case host f (JObj implementors_part_000) window of
              Inl v \<Rightarrow> Inl (Thrown v) | Inr window' \<Rightarrow> Inr window')
       \<and> filter is_StorePending (fst (load_part_000 host window)) = []"
  using assms by (simp add: load_trait_Send_def load_part_000_def hand_off_consumer)

theorem consumer_present_invoked_once_witness:
  "register_implementors ready_page = JFun 7
   \<and> fst (load_trait_Send quiet_host ready_page) = [Invoke 7 implementors_trait_Send]
   \<and> snd (load_trait_Send quiet_host ready_page) = Inr ready_page
   \<and> pending_implementors ready_page = JUndefined"
  using consumer_present_invoked_once [of ready_page 7 quiet_host]
  by (simp add: ready_page_def quiet_host_def)

subsection \<open>The two paths hand off the same table\<close>

text \<open>
  Claim C2. When no consumer is registered at load time (the property is falsy), the
  value left in \<open>window.pending_implementors\<close> is the table that a load on a page with a
  consumer passes to \<open>register_implementors\<close>: the load on the second page is one call
  of its consumer with that very value, and a consumer that records its argument
  records the content of the first page's slot.
\<close>

theorem pending_equals_direct_delivery:
  fixes w1 :: "'a window_scheme" and w2 :: "'b window_scheme" and page :: probed_window
  assumes "\<not> truthy (register_implementors w1)"
    and "register_implementors w2 = JFun f"
    and "register_implementors page = JFun g"
  shows "(\<exists>t w1'. snd (load_trait_Send h1 w1) = Inr w1'
            \<and> pending_implementors w1' = JObj t
            \<and> snd (load_trait_Send h2 w2) =
                (case h2 f (JObj t) w2 of Inl v \<Rightarrow> Inl (Thrown v) | Inr w2' \<Rightarrow> Inr w2')
            \<and> snd (load_trait_Send recording_host page) =
                Inr (page\<lparr>calls := calls page @ [(g, pending_implementors w1')]\<rparr>)
            \<and> fst (load_trait_Send h2 w2) = [Invoke f t])
       \<and> (\<exists>t w1'. snd (load_part_000 h1 w1) = Inr w1'
            \<and> pending_implementors w1' = JObj t
            \<and> snd (load_part_000 h2 w2) =
                (case h2 f (JObj t) w2 of Inl v \<Rightarrow> Inl (Thrown v) | Inr w2' \<Rightarrow> Inr w2')
            \<and> snd (load_part_000 recording_host page) =
                Inr (page\<lparr>calls := calls page @ [(g, pending_implementors w1')]\<rparr>)
            \<and> fst (load_part_000 h2 w2) = [Invoke f t])"
  using assms
  by (simp add: load_trait_Send_def load_part_000_def hand_off_consumer hand_off_absent
      recording_host_def)

theorem pending_equals_direct_delivery_witness:
  "\<not> truthy (register_implementors fresh_page)
   \<and> register_implementors ready_page = JFun 7
   \<and> register_implementors probed_ready = JFun 7
   \<and> (\<exists>t w1'. snd (load_trait_Send quiet_host fresh_page) = Inr w1'
         \<and> pending_implementors w1' = JObj t
         \<and> snd (load_trait_Send quiet_host ready_page) = Inr ready_page
         \<and> snd (load_trait_Send recording_host probed_ready) =
             Inr (probed_ready\<lparr>calls := [(7, pending_implementors w1')]\<rparr>)
         \<and> calls probed_ready = []
         \<and> fst (load_trait_Send quiet_host ready_page) = [Invoke 7 t])"
  using pending_equals_direct_delivery
    [of fresh_page ready_page 7 probed_ready 7 quiet_host quiet_host]
  by (simp add: fresh_page_def ready_page_def probed_ready_def quiet_host_def)

subsection \<open>The table arrives as it was built\<close>

text \<open>
  Claim C3. Whatever the script delivers is the table it built, with the same records
  in the same order. A consumer that is present is called with that table as its
  argument (the load is that one call, and a consumer that records its argument records
  the table); without a consumer the pending slot holds that table after the load. On
  a page where \<open>register_implementors\<close> is falsy or a function there is exactly one
  delivery.
\<close>

theorem table_delivered_unchanged:
  fixes window :: "'w window_scheme" and page :: probed_window
  shows "(\<forall>f. register_implementors window = JFun f \<longrightarrow>
            snd (load_trait_Send host window) =
              (case host f (JObj implementors_trait_Send) window of
                 Inl v \<Rightarrow> Inl (Thrown v) | Inr window' \<Rightarrow> Inr window'))
       \<and> (\<forall>f. register_implementors page = JFun f \<longrightarrow>
            snd (load_trait_Send recording_host page) =
              Inr (page\<lparr>calls := calls page @ [(f, JObj implementors_trait_Send)]\<rparr>))
       \<and> (\<not> truthy (register_implementors window)
            \<longrightarrow> snd (load_trait_Send host window) =
                  Inr (window\<lparr>pending_implementors := JObj implementors_trait_Send\<rparr>))
       \<and> (\<forall>a \<in> set (fst (load_trait_Send host window)). payload a = implementors_trait_Send)
       \<and> ((truthy (register_implementors window) \<longrightarrow> callable (register_implementors window))
            \<longrightarrow> map payload (fst (load_trait_Send host window)) = [implementors_trait_Send])
       \<and> implementors_trait_Send =
           [(''alloc_wg'',
             [Send_00, Send_01, Send_02, Send_03, Send_04, Send_05, Send_06, Send_07,
              Send_08, Send_09, Send_10, Send_11, Send_12, Send_13, Send_14, Send_15,
              Send_16])]
       \<and> (\<forall>f. register_implementors window = JFun f \<longrightarrow>
            snd (load_part_000 host window) =
              (case host f (JObj implementors_part_000) window of
                 Inl v \<Rightarrow> Inl (Thrown v) | Inr window' \<Rightarrow> Inr window'))
       \<and> (\<forall>f. register_implementors page = JFun f \<longrightarrow>
            snd (load_part_000 recording_host page) =
              Inr (page\<lparr>calls := calls page @ [(f, JObj implementors_part_000)]\<rparr>))
       \<and> (\<not> truthy (register_implementors window)
            \<longrightarrow> snd (load_part_000 host window) =
                  Inr (window\<lparr>pending_implementors := JObj implementors_part_000\<rparr>))
       \<and> (\<forall>a \<in> set (fst (load_part_000 host window)). payload a = implementors_part_000)
       \<and> ((truthy (register_implementors window) \<longrightarrow> callable (register_implementors window))
            \<longrightarrow> map payload (fst (load_part_000 host window)) = [implementors_part_000])
       \<and> implementors_part_000 =
           [(''alloc_wg'',
             [part_000_00, part_000_01, part_000_02, part_000_03, part_000_04, part_000_05,
              part_000_06, part_000_07])]"
proof -
  have one: "map payload (fst (hand_off t host window)) = [t]"
    if "truthy (register_implementors window) \<longrightarrow> callable (register_implementors window)"
    for t
  proof (cases "truthy (register_implementors window)")
    case True
    with that obtain f where "register_implementors window = JFun f"
      using callable_JFun by blast
    then show ?thesis by (simp add: hand_off_consumer)
  next
    case False
    then show ?thesis by (simp add: hand_off_absent)
  qed
  show ?thesis
    unfolding load_trait_Send_def load_part_000_def
    using one trait_Send_table part_000_table
    by (simp add: hand_off_payload hand_off_absent hand_off_consumer recording_host_def)
qed

theorem table_delivered_unchanged_witness:
  "register_implementors ready_page = JFun 7
   \<and> snd (load_trait_Send quiet_host ready_page) = Inr ready_page
   \<and> register_implementors probed_ready = JFun 7
   \<and> snd (load_trait_Send recording_host probed_ready) =
       Inr (probed_ready\<lparr>calls := [(7, JObj implementors_trait_Send)]\<rparr>)
   \<and> Invoke 7 implementors_trait_Send \<in> set (fst (load_trait_Send quiet_host ready_page))
   \<and> payload (Invoke 7 implementors_trait_Send) = implementors_trait_Send
   \<and> truthy (register_implementors ready_page)
   \<and> callable (register_implementors ready_page)
   \<and> map payload (fst (load_trait_Send quiet_host ready_page)) = [implementors_trait_Send]
   \<and> \<not> truthy (register_implementors fresh_page)
   \<and> snd (load_trait_Send quiet_host fresh_page) =
       Inr (fresh_page\<lparr>pending_implementors := JObj implementors_trait_Send\<rparr>)
   \<and> StorePending implementors_part_000 \<in> set (fst (load_part_000 quiet_host fresh_page))"
  using table_delivered_unchanged [of ready_page quiet_host probed_ready]
    table_delivered_unchanged [of fresh_page quiet_host probed_ready]
  by (simp add: ready_page_def fresh_page_def probed_ready_def quiet_host_def
      load_trait_Send_def load_part_000_def hand_off_consumer hand_off_absent)

subsection \<open>At most one delivery\<close>

text \<open>
  Claim C4. In one load the consumer is called at most once, and the script does
  nothing after its first delivery. For every consumer, the page after the load is
  either the result of one call of the consumer on the page as it was (no second call
  and no write of the pending slot after it), or the page as it was with the table in
  the pending slot and no call at all, or there is no page because the script ended
  with its own error. A consumer that records its calls has at most one more call on
  record after the load: one, with the pending slot as it was, when the consumer slot
  was truthy, and none, with the table in the pending slot, when it was falsy.
\<close>

theorem at_most_one_delivery:
  fixes window :: "'w window_scheme" and page :: probed_window
  shows "((\<exists>f. register_implementors window = JFun f
             \<and> snd (load_trait_Send host window) =
                 (case host f (JObj implementors_trait_Send) window of
                    Inl v \<Rightarrow> Inl (Thrown v) | Inr window' \<Rightarrow> Inr window'))
          \<or> (\<not> truthy (register_implementors window)
             \<and> snd (load_trait_Send host window) =
                 Inr (window\<lparr>pending_implementors := JObj implementors_trait_Send\<rparr>))
          \<or> snd (load_trait_Send host window) = Inl NotAFunction)
       \<and> (\<forall>page'. snd (load_trait_Send recording_host page) = Inr page' \<longrightarrow>
            length (calls page') \<le> length (calls page) + 1
            \<and> (truthy (register_implementors page) \<longrightarrow>
                 (\<exists>f. calls page' = calls page @ [(f, JObj implementors_trait_Send)])
                 \<and> pending_implementors page' = pending_implementors page)
            \<and> (\<not> truthy (register_implementors page) \<longrightarrow>
                 calls page' = calls page
                 \<and> pending_implementors page' = JObj implementors_trait_Send))
       \<and> length (filter is_Invoke (fst (load_trait_Send host window))) \<le> 1
       \<and> length (fst (load_trait_Send host window)) \<le> 1
       \<and> ((\<exists>f. register_implementors window = JFun f
             \<and> snd (load_part_000 host window) =
                 (case host f (JObj implementors_part_000) window of
                    Inl v \<Rightarrow> Inl (Thrown v) | Inr window' \<Rightarrow> Inr window'))
          \<or> (\<not> truthy (register_implementors window)
             \<and> snd (load_part_000 host window) =
                 Inr (window\<lparr>pending_implementors := JObj implementors_part_000\<rparr>))
          \<or> snd (load_part_000 host window) = Inl NotAFunction)
       \<and> (\<forall>page'. snd (load_part_000 recording_host page) = Inr page' \<longrightarrow>
            length (calls page') \<le> length (calls page) + 1
            \<and> (truthy (register_implementors page) \<longrightarrow>
                 (\<exists>f. calls page' = calls page @ [(f, JObj implementors_part_000)])
                 \<and> pending_implementors page' = pending_implementors page)
            \<and> (\<not> truthy (register_implementors page) \<longrightarrow>
                 calls page' = calls page
                 \<and> pending_implementors page' = JObj implementors_part_000))
       \<and> length (filter is_Invoke (fst (load_part_000 host window))) \<le> 1
       \<and> length (fst (load_part_000 host window)) \<le> 1"
proof -
  have state: "(\<exists>f. register_implementors window = JFun f
             \<and> snd (hand_off t host window) =
                 (case host f (JObj t) window of
                    Inl v \<Rightarrow> Inl (Thrown v) | Inr window' \<Rightarrow> Inr window'))
          \<or> (\<not> truthy (register_implementors window)
             \<and> snd (hand_off t host window) =
                 Inr (window\<lparr>pending_implementors := JObj t\<rparr>))
          \<or> snd (hand_off t host window) = Inl NotAFunction" for t
    by (cases "register_implementors window") (simp_all add: hand_off_def)
  have probe: "\<forall>page'. snd (hand_off t recording_host page) = Inr page' \<longrightarrow>
            length (calls page') \<le> length (calls page) + 1
            \<and> (truthy (register_implementors page) \<longrightarrow>
                 (\<exists>f. calls page' = calls page @ [(f, JObj t)])
                 \<and> pending_implementors page' = pending_implementors page)
            \<and> (\<not> truthy (register_implementors page) \<longrightarrow>
                 calls page' = calls page
                 \<and> pending_implementors page' = JObj t)" for t
    by (cases "register_implementors page")
      (auto simp add: hand_off_def recording_host_def)
  have log: "length (filter is_Invoke (fst (hand_off t host window))) \<le> 1
      \<and> length (fst (hand_off t host window)) \<le> 1" for t
    using hand_off_actions [of t host window] by auto
  show ?thesis
    unfolding load_trait_Send_def load_part_000_def
    using state [of implementors_trait_Send] state [of implementors_part_000]
      probe [of implementors_trait_Send] probe [of implementors_part_000]
      log [of implementors_trait_Send] log [of implementors_part_000]
    by blast
qed

theorem at_most_one_delivery_witness:
  "register_implementors ready_page = JFun 7
   \<and> snd (load_trait_Send quiet_host ready_page) = Inr ready_page
   \<and> truthy (register_implementors probed_ready)
   \<and> snd (load_trait_Send recording_host probed_ready) =
       Inr (probed_ready\<lparr>calls := [(7, JObj implementors_trait_Send)]\<rparr>)
   \<and> length (calls (probed_ready\<lparr>calls := [(7, JObj implementors_trait_Send)]\<rparr>))
       \<le> length (calls probed_ready) + 1
   \<and> \<not> truthy (register_implementors probed_fresh)
   \<and> snd (load_trait_Send recording_host probed_fresh) =
       Inr (probed_fresh\<lparr>pending_implementors := JObj implementors_trait_Send\<rparr>)
   \<and> calls (probed_fresh\<lparr>pending_implementors := JObj implementors_trait_Send\<rparr>) =
       calls probed_fresh"
  using at_most_one_delivery [of ready_page quiet_host probed_ready]
    at_most_one_delivery [of ready_page quiet_host probed_fresh]
  by (simp add: ready_page_def probed_ready_def probed_fresh_def quiet_host_def
      recording_host_def load_trait_Send_def hand_off_consumer hand_off_absent)

subsection \<open>The keys of a table\<close>

text \<open>
  Claim C5, as the specification states it: every key of a table is a fully-qualified
  trait path. It fails on the file for \<open>Send\<close>: the only key is \<open>alloc_wg\<close>, a single
  segment.
\<close>

theorem keys_are_trait_paths_counterexample:
  "obj_keys implementors_trait_Send = [''alloc_wg'']
   \<and> split_path ''alloc_wg'' = [''alloc_wg'']
   \<and> \<not> qualified_path ''alloc_wg''
   \<and> \<not> list_all qualified_path (obj_keys implementors_trait_Send)"
  by (simp add: trait_Send_table obj_keys_def qualified_path_def split_path_def)

text \<open>
  Claim C5, amended. Every key of a table is the name of a crate, a single identifier
  (here \<open>alloc_wg\<close>), under which the records for the types of that crate are grouped:
  the path of every record under a key starts with the key. Keys are unique per table.
\<close>

theorem keys_are_crate_names:
  "obj_keys implementors_trait_Send = [''alloc_wg'']
   \<and> distinct (obj_keys implementors_trait_Send)
   \<and> (\<forall>(k, rs) \<in> set implementors_trait_Send.
         is_identifier k \<and> (\<forall>r \<in> set rs. \<forall>p \<in> set (types r). take 1 (split_path p) = [k]))
   \<and> obj_keys implementors_part_000 = [''alloc_wg'']
   \<and> distinct (obj_keys implementors_part_000)
   \<and> (\<forall>(k, rs) \<in> set implementors_part_000.
         is_identifier k \<and> (\<forall>r \<in> set rs. \<forall>p \<in> set (types r). take 1 (split_path p) = [k]))"
proof -
  let ?crate = "\<lambda>ps. \<forall>p \<in> set ps. take 1 (split_path p) = [''alloc_wg'']"
  have "list_all ?crate (map types (records implementors_trait_Send))"
    by (simp add: trait_Send_types split_path_def)
  then have send: "\<forall>r \<in> set (records implementors_trait_Send). ?crate (types r)"
    by (simp add: list_all_iff)
  have "list_all ?crate (map types (records implementors_part_000))"
    by (simp add: part_000_types split_path_def)
  then have part: "\<forall>r \<in> set (records implementors_part_000). ?crate (types r)"
    by (simp add: list_all_iff)
  have ident: "is_identifier ''alloc_wg''"
    by (simp add: ident_start_def ident_char_def)
  from send part ident show ?thesis
    by (simp add: trait_Send_table part_000_table obj_keys_def records_def)
qed

theorem keys_are_crate_names_witness:
  "(''alloc_wg'', records implementors_trait_Send) \<in> set implementors_trait_Send
   \<and> Send_00 \<in> set (records implementors_trait_Send)
   \<and> ''alloc_wg::alloc::layout::LayoutErr'' \<in> set (types Send_00)
   \<and> is_identifier ''alloc_wg''
   \<and> take 1 (split_path ''alloc_wg::alloc::layout::LayoutErr'') = [''alloc_wg'']"
proof -
  have t: "types Send_00 = [''alloc_wg::alloc::layout::LayoutErr'']"
    by (simp add: Send_00_def)
  have m: "(''alloc_wg'', records implementors_trait_Send) \<in> set implementors_trait_Send"
    by (simp add: trait_Send_table records_def)
  have r: "Send_00 \<in> set (records implementors_trait_Send)"
    by (simp add: trait_Send_records)
  from keys_are_crate_names m r t show ?thesis
    by fastforce
qed

subsection \<open>The fields of a record\<close>

text \<open>
  Claim C6, as the specification states it: the type path of a record is a sequence of
  identifiers, one for each level of the module path. It fails on the first record of
  the file for \<open>Send\<close>: its \<open>types\<close> array has one element, the whole path of four
  levels in one string, which is not an identifier.
\<close>

theorem type_path_one_identifier_per_level_counterexample:
  "Send_00 \<in> set (records implementors_trait_Send)
   \<and> types Send_00 = [''alloc_wg::alloc::layout::LayoutErr'']
   \<and> split_path ''alloc_wg::alloc::layout::LayoutErr'' =
       [''alloc_wg'', ''alloc'', ''layout'', ''LayoutErr'']
   \<and> length (types Send_00) \<noteq> length (split_path ''alloc_wg::alloc::layout::LayoutErr'')
   \<and> \<not> list_all is_identifier (types Send_00)"
  by (simp add: trait_Send_records Send_00_def split_path_def ident_start_def ident_char_def)

text \<open>
  Claim C6, amended. Every record of every table carries a boolean \<open>synthetic\<close> and a
  \<open>types\<close> array of exactly one string: the fully-qualified path of the implementing
  type, its identifiers joined by \<open>::\<close> in that one string.
\<close>

theorem record_fields_shape:
  "(\<forall>r \<in> set (records implementors_trait_Send).
      (synthetic r = True \<or> synthetic r = False)
      \<and> length (types r) = 1 \<and> list_all qualified_path (types r))
   \<and> (\<forall>r \<in> set (records implementors_part_000).
      (synthetic r = True \<or> synthetic r = False)
      \<and> length (types r) = 1 \<and> list_all qualified_path (types r))"
proof -
  let ?one = "\<lambda>ps. length ps = 1 \<and> list_all qualified_path ps"
  have "list_all ?one (map types (records implementors_trait_Send))"
    by (simp add: trait_Send_types qualified_path_def split_path_def
        ident_start_def ident_char_def)
  then have send: "\<forall>r \<in> set (records implementors_trait_Send). ?one (types r)"
    by (simp add: list_all_iff)
  have "list_all ?one (map types (records implementors_part_000))"
    by (simp add: part_000_types qualified_path_def split_path_def
        ident_start_def ident_char_def)
  then have part: "\<forall>r \<in> set (records implementors_part_000). ?one (types r)"
    by (simp add: list_all_iff)
  from send part show ?thesis
    by simp
qed

theorem record_fields_shape_witness:
  "part_000_07 \<in> set (records implementors_part_000)
   \<and> synthetic part_000_07 = False
   \<and> length (types part_000_07) = 1
   \<and> types part_000_07 = [''alloc_wg::vec::DrainFilter'']
   \<and> list_all qualified_path (types part_000_07)"
proof -
  have r: "part_000_07 \<in> set (records implementors_part_000)"
    by (simp add: part_000_records)
  have f: "synthetic part_000_07 = False"
    and t: "types part_000_07 = [''alloc_wg::vec::DrainFilter'']"
    by (simp_all add: part_000_07_def)
  from record_fields_shape r
  have "length (types part_000_07) = 1 \<and> list_all qualified_path (types part_000_07)"
    by blast
  with r f t show ?thesis
    by simp
qed

subsection \<open>The table does not depend on the page\<close>

text \<open>
  Claim C7. The script takes no input and its table is a constant: in any two runs, on
  whatever pages and with whatever consumers, the table delivered is the same. On two
  pages that record what their consumer receives, what the two runs hand off (the
  argument received, or the content of the pending slot) is equal, whether or not a
  consumer is registered on either; and for every consumer the load is one call with
  the same constant, or the store of that constant.
\<close>

theorem table_independent_of_page:
  fixes w1 :: "'a window_scheme" and w2 :: "'b window_scheme"
    and p1 :: probed_window and p2 :: probed_window
  shows "(\<forall>p1' p2'. snd (load_trait_Send recording_host p1) = Inr p1'
              \<and> snd (load_trait_Send recording_host p2) = Inr p2'
            \<longrightarrow> delivered p1 p1' = delivered p2 p2'
              \<and> delivered p1 p1' = [JObj implementors_trait_Send])
       \<and> (\<forall>f. register_implementors w1 = JFun f \<longrightarrow>
            snd (load_trait_Send h1 w1) =
              (case h1 f (JObj implementors_trait_Send) w1 of
                 Inl v \<Rightarrow> Inl (Thrown v) | Inr w1' \<Rightarrow> Inr w1'))
       \<and> (\<forall>f. register_implementors w2 = JFun f \<longrightarrow>
            snd (load_trait_Send h2 w2) =
              (case h2 f (JObj implementors_trait_Send) w2 of
                 Inl v \<Rightarrow> Inl (Thrown v) | Inr w2' \<Rightarrow> Inr w2'))
       \<and> (\<not> truthy (register_implementors w1) \<longrightarrow>
            snd (load_trait_Send h1 w1) =
              Inr (w1\<lparr>pending_implementors := JObj implementors_trait_Send\<rparr>))
       \<and> (\<not> truthy (register_implementors w2) \<longrightarrow>
            snd (load_trait_Send h2 w2) =
              Inr (w2\<lparr>pending_implementors := JObj implementors_trait_Send\<rparr>))
       \<and> (\<forall>a \<in> set (fst (load_trait_Send h1 w1)).
            \<forall>b \<in> set (fst (load_trait_Send h2 w2)). payload a = payload b)
       \<and> (\<forall>w1' w2'. \<not> truthy (register_implementors w1) \<and> \<not> truthy (register_implementors w2)
            \<and> snd (load_trait_Send h1 w1) = Inr w1' \<and> snd (load_trait_Send h2 w2) = Inr w2'
            \<longrightarrow> pending_implementors w1' = pending_implementors w2')
       \<and> (\<forall>p1' p2'. snd (load_part_000 recording_host p1) = Inr p1'
              \<and> snd (load_part_000 recording_host p2) = Inr p2'
            \<longrightarrow> delivered p1 p1' = delivered p2 p2'
              \<and> delivered p1 p1' = [JObj implementors_part_000])
       \<and> (\<forall>f. register_implementors w1 = JFun f \<longrightarrow>
            snd (load_part_000 h1 w1) =
              (case h1 f (JObj implementors_part_000) w1 of
                 Inl v \<Rightarrow> Inl (Thrown v) | Inr w1' \<Rightarrow> Inr w1'))
       \<and> (\<forall>f. register_implementors w2 = JFun f \<longrightarrow>
            snd (load_part_000 h2 w2) =
              (case h2 f (JObj implementors_part_000) w2 of
                 Inl v \<Rightarrow> Inl (Thrown v) | Inr w2' \<Rightarrow> Inr w2'))
       \<and> (\<not> truthy (register_implementors w1) \<longrightarrow>
            snd (load_part_000 h1 w1) =
              Inr (w1\<lparr>pending_implementors := JObj implementors_part_000\<rparr>))
       \<and> (\<not> truthy (register_implementors w2) \<longrightarrow>
            snd (load_part_000 h2 w2) =
              Inr (w2\<lparr>pending_implementors := JObj implementors_part_000\<rparr>))
       \<and> (\<forall>a \<in> set (fst (load_part_000 h1 w1)).
            \<forall>b \<in> set (fst (load_part_000 h2 w2)). payload a = payload b)
       \<and> (\<forall>w1' w2'. \<not> truthy (register_implementors w1) \<and> \<not> truthy (register_implementors w2)
            \<and> snd (load_part_000 h1 w1) = Inr w1' \<and> snd (load_part_000 h2 w2) = Inr w2'
            \<longrightarrow> pending_implementors w1' = pending_implementors w2')"
proof -
  have probe: "delivered p p' = [JObj t]"
    if "snd (hand_off t recording_host p) = Inr p'" for t p p'
    using that
    by (cases "register_implementors p")
      (auto simp add: hand_off_def recording_host_def delivered_def)
  have pay: "\<forall>a \<in> set (fst (hand_off t h1 w1)). \<forall>b \<in> set (fst (hand_off t h2 w2)).
      payload a = payload b" for t
    by (simp add: hand_off_payload)
  have slot: "pending_implementors w1' = pending_implementors w2'"
    if "\<not> truthy (register_implementors w1)" and "\<not> truthy (register_implementors w2)"
      and "snd (hand_off t h1 w1) = Inr w1'" and "snd (hand_off t h2 w2) = Inr w2'"
    for t w1' w2'
    using that by (auto simp add: hand_off_absent)
  have both: "\<forall>p1' p2'. snd (hand_off t recording_host p1) = Inr p1'
              \<and> snd (hand_off t recording_host p2) = Inr p2'
            \<longrightarrow> delivered p1 p1' = delivered p2 p2' \<and> delivered p1 p1' = [JObj t]" for t
    using probe [of t p1] probe [of t p2] by simp
  have call1: "\<forall>f. register_implementors w1 = JFun f \<longrightarrow>
            snd (hand_off t h1 w1) =
              (case h1 f (JObj t) w1 of Inl v \<Rightarrow> Inl (Thrown v) | Inr w1' \<Rightarrow> Inr w1')" for t
    by (simp add: hand_off_consumer)
  have call2: "\<forall>f. register_implementors w2 = JFun f \<longrightarrow>
            snd (hand_off t h2 w2) =
              (case h2 f (JObj t) w2 of Inl v \<Rightarrow> Inl (Thrown v) | Inr w2' \<Rightarrow> Inr w2')" for t
    by (simp add: hand_off_consumer)
  have store1: "\<not> truthy (register_implementors w1) \<longrightarrow>
            snd (hand_off t h1 w1) = Inr (w1\<lparr>pending_implementors := JObj t\<rparr>)" for t
    by (simp add: hand_off_absent)
  have store2: "\<not> truthy (register_implementors w2) \<longrightarrow>
            snd (hand_off t h2 w2) = Inr (w2\<lparr>pending_implementors := JObj t\<rparr>)" for t
    by (simp add: hand_off_absent)
  have slots: "\<forall>w1' w2'. \<not> truthy (register_implementors w1) \<and> \<not> truthy (register_implementors w2)
            \<and> snd (hand_off t h1 w1) = Inr w1' \<and> snd (hand_off t h2 w2) = Inr w2'
            \<longrightarrow> pending_implementors w1' = pending_implementors w2'" for t
    using slot [of t] by blast
  show ?thesis
    unfolding load_trait_Send_def load_part_000_def
    by (intro conjI both call1 call2 store1 store2 pay slots)
qed

theorem table_independent_of_page_witness:
  "snd (load_trait_Send recording_host probed_ready) =
       Inr (probed_ready\<lparr>calls := [(7, JObj implementors_trait_Send)]\<rparr>)
   \<and> snd (load_trait_Send recording_host probed_fresh) =
       Inr (probed_fresh\<lparr>pending_implementors := JObj implementors_trait_Send\<rparr>)
   \<and> delivered probed_ready (probed_ready\<lparr>calls := [(7, JObj implementors_trait_Send)]\<rparr>) =
       delivered probed_fresh
         (probed_fresh\<lparr>pending_implementors := JObj implementors_trait_Send\<rparr>)
   \<and> delivered probed_ready (probed_ready\<lparr>calls := [(7, JObj implementors_trait_Send)]\<rparr>) =
       [JObj implementors_trait_Send]
   \<and> register_implementors ready_page = JFun 7
   \<and> snd (load_trait_Send quiet_host ready_page) = Inr ready_page
   \<and> Invoke 7 implementors_trait_Send \<in> set (fst (load_trait_Send quiet_host ready_page))
   \<and> StorePending implementors_trait_Send \<in> set (fst (load_trait_Send quiet_host fresh_page))
   \<and> payload (Invoke 7 implementors_trait_Send) = payload (StorePending implementors_trait_Send)
   \<and> \<not> truthy (register_implementors fresh_page)
   \<and> \<not> truthy (register_implementors null_page)
   \<and> snd (load_trait_Send quiet_host fresh_page) =
       Inr (fresh_page\<lparr>pending_implementors := JObj implementors_trait_Send\<rparr>)
   \<and> snd (load_trait_Send quiet_host null_page) =
       Inr (null_page\<lparr>pending_implementors := JObj implementors_trait_Send\<rparr>)"
proof -
  have ready: "snd (load_trait_Send recording_host probed_ready) =
      Inr (probed_ready\<lparr>calls := [(7, JObj implementors_trait_Send)]\<rparr>)"
    by (simp add: load_trait_Send_def hand_off_consumer probed_ready_def recording_host_def)
  have fresh: "snd (load_trait_Send recording_host probed_fresh) =
      Inr (probed_fresh\<lparr>pending_implementors := JObj implementors_trait_Send\<rparr>)"
    by (simp add: load_trait_Send_def hand_off_absent probed_fresh_def)
  have isfun: "register_implementors ready_page = JFun 7"
    by (simp add: ready_page_def)
  have absent: "\<not> truthy (register_implementors fresh_page)"
    and null: "\<not> truthy (register_implementors null_page)"
    by (simp_all add: fresh_page_def null_page_def)
  note run = table_independent_of_page
      [of probed_ready probed_fresh ready_page quiet_host fresh_page quiet_host]
  note run' = table_independent_of_page
      [of probed_ready probed_fresh fresh_page quiet_host null_page quiet_host]
  from run [THEN conjunct1, rule_format, OF conjI [OF ready fresh]]
  have same: "delivered probed_ready
        (probed_ready\<lparr>calls := [(7, JObj implementors_trait_Send)]\<rparr>) =
      delivered probed_fresh
        (probed_fresh\<lparr>pending_implementors := JObj implementors_trait_Send\<rparr>)"
    and whole: "delivered probed_ready
        (probed_ready\<lparr>calls := [(7, JObj implementors_trait_Send)]\<rparr>) =
      [JObj implementors_trait_Send]"
    by blast+
  from run [THEN conjunct2, THEN conjunct1, rule_format, OF isfun]
  have call': "snd (load_trait_Send quiet_host ready_page) = Inr ready_page"
    by (simp add: quiet_host_def)
  note rest = run [THEN conjunct2, THEN conjunct2, THEN conjunct2, THEN conjunct2]
  note rest' = run' [THEN conjunct2, THEN conjunct2, THEN conjunct2, THEN conjunct2]
  from rest [THEN conjunct1, rule_format, OF absent]
  have store: "snd (load_trait_Send quiet_host fresh_page) =
      Inr (fresh_page\<lparr>pending_implementors := JObj implementors_trait_Send\<rparr>)" .
  from rest' [THEN conjunct1, rule_format, OF null]
  have store': "snd (load_trait_Send quiet_host null_page) =
      Inr (null_page\<lparr>pending_implementors := JObj implementors_trait_Send\<rparr>)" .
  have mem: "Invoke 7 implementors_trait_Send \<in> set (fst (load_trait_Send quiet_host ready_page))"
    using isfun by (simp add: load_trait_Send_def hand_off_consumer)
  have mem': "StorePending implementors_trait_Send
      \<in> set (fst (load_trait_Send quiet_host fresh_page))"
    using absent by (simp add: load_trait_Send_def hand_off_absent)
  have pay: "payload (Invoke 7 implementors_trait_Send) =
      payload (StorePending implementors_trait_Send)"
    by simp
  show ?thesis
    by (intro conjI) (fact ready fresh same whole isfun call' mem mem' pay absent null
        store store')+
qed

subsection \<open>Errors of the script itself\<close>

text \<open>
  Claim C8, as the specification states it: on every page the load completes without
  an error of the script's own. It fails on a page where \<open>register_implementors\<close> is
  \<open>true\<close>: the value is truthy, so the script calls it, and the call raises the
  \<open>TypeError\<close> of calling what is not a function; nothing is delivered.
\<close>

theorem load_never_fails_counterexample:
  "register_implementors flag_page = JBool True
   \<and> load_trait_Send quiet_host flag_page = ([], Inl NotAFunction)
   \<and> load_part_000 quiet_host flag_page = ([], Inl NotAFunction)"
  by (simp add: flag_page_def load_trait_Send_def load_part_000_def hand_off_def)

text \<open>
  Claim C8, amended. On every page where \<open>register_implementors\<close> is falsy or a
  function, building the table and handing it off complete without an error of the
  script's own: the load ends abruptly only with a value that the consumer threw. On
  every page where the value is truthy and not a function, whatever the value and the
  consumer, the call raises the script's own \<open>TypeError\<close> and nothing is delivered; the
  script's own error arises on exactly these pages.
\<close>

theorem load_completes_when_falsy_or_function:
  fixes window :: "'w window_scheme"
  shows "((truthy (register_implementors window) \<longrightarrow> callable (register_implementors window))
          \<longrightarrow> snd (load_trait_Send host window) \<noteq> Inl NotAFunction
            \<and> (\<forall>v. snd (load_trait_Send host window) = Inl (Thrown v) \<longrightarrow>
                 (\<exists>f. register_implementors window = JFun f
                      \<and> host f (JObj implementors_trait_Send) window = Inl v)))
       \<and> (truthy (register_implementors window) \<and> \<not> callable (register_implementors window)
          \<longrightarrow> load_trait_Send host window = ([], Inl NotAFunction))
       \<and> (snd (load_trait_Send host window) = Inl NotAFunction) =
           (truthy (register_implementors window) \<and> \<not> callable (register_implementors window))
       \<and> ((truthy (register_implementors window) \<longrightarrow> callable (register_implementors window))
          \<longrightarrow> snd (load_part_000 host window) \<noteq> Inl NotAFunction
            \<and> (\<forall>v. snd (load_part_000 host window) = Inl (Thrown v) \<longrightarrow>
                 (\<exists>f. register_implementors window = JFun f
                      \<and> host f (JObj implementors_part_000) window = Inl v)))
       \<and> (truthy (register_implementors window) \<and> \<not> callable (register_implementors window)
          \<longrightarrow> load_part_000 host window = ([], Inl NotAFunction))
       \<and> (snd (load_part_000 host window) = Inl NotAFunction) =
           (truthy (register_implementors window) \<and> \<not> callable (register_implementors window))"
proof -
  have ok: "snd (hand_off t host window) \<noteq> Inl NotAFunction
      \<and> (\<forall>v. snd (hand_off t host window) = Inl (Thrown v) \<longrightarrow>
           (\<exists>f. register_implementors window = JFun f \<and> host f (JObj t) window = Inl v))"
    if "truthy (register_implementors window) \<longrightarrow> callable (register_implementors window)"
    for t
  proof (cases "truthy (register_implementors window)")
    case True
    with that obtain f where "register_implementors window = JFun f"
      using callable_JFun by blast
    then show ?thesis
      by (auto simp add: hand_off_consumer split: sum.splits)
  next
    case False
    then show ?thesis
      by (simp add: hand_off_absent)
  qed
  have bad: "hand_off t host window = ([], Inl NotAFunction)"
    if "truthy (register_implementors window)"
      and "\<not> callable (register_implementors window)" for t
    using that by (rule hand_off_not_callable)
  have iff: "(snd (hand_off t host window) = Inl NotAFunction) =
      (truthy (register_implementors window) \<and> \<not> callable (register_implementors window))"
    for t
    using ok [of t] bad [of t] by auto
  show ?thesis
    unfolding load_trait_Send_def load_part_000_def
    using ok bad iff by blast
qed

theorem load_completes_when_falsy_or_function_witness:
  "truthy (register_implementors ready_page)
   \<and> callable (register_implementors ready_page)
   \<and> snd (load_trait_Send quiet_host ready_page) = Inr ready_page
   \<and> snd (load_trait_Send quiet_host ready_page) \<noteq> Inl NotAFunction
   \<and> \<not> truthy (register_implementors fresh_page)
   \<and> snd (load_part_000 quiet_host fresh_page) \<noteq> Inl NotAFunction
   \<and> register_implementors number_page = JNum 1
   \<and> truthy (register_implementors number_page)
   \<and> \<not> callable (register_implementors number_page)
   \<and> load_trait_Send quiet_host number_page = ([], Inl NotAFunction)
   \<and> load_part_000 quiet_host number_page = ([], Inl NotAFunction)"
  using load_completes_when_falsy_or_function [of ready_page quiet_host]
    load_completes_when_falsy_or_function [of fresh_page quiet_host]
    load_completes_when_falsy_or_function [of number_page quiet_host]
  by (simp add: ready_page_def fresh_page_def number_page_def quiet_host_def
      load_trait_Send_def hand_off_consumer)

subsection \<open>The branch tests truthiness\<close>

text \<open>
  Claim C9. The branch is taken on the truthiness of \<open>window.register_implementors\<close>,
  not on its being defined: when the value is falsy (\<open>null\<close>, \<open>0\<close> and \<open>false\<close> are), the
  script does not call it and stores the table in \<open>window.pending_implementors\<close>.
\<close>

theorem falsy_global_not_invoked:
  fixes window :: "'w window_scheme"
  assumes "\<not> truthy (register_implementors window)"
  shows "load_trait_Send host window =
           ([StorePending implementors_trait_Send],
            Inr (window\<lparr>pending_implementors := JObj implementors_trait_Send\<rparr>))
       \<and> filter is_Invoke (fst (load_trait_Send host window)) = []
       \<and> load_part_000 host window =
           ([StorePending implementors_part_000],
            Inr (window\<lparr>pending_implementors := JObj implementors_part_000\<rparr>))
       \<and> filter is_Invoke (fst (load_part_000 host window)) = []
       \<and> \<not> truthy JNull \<and> \<not> truthy (JNum 0) \<and> \<not> truthy (JBool False)"
  using assms by (simp add: load_trait_Send_def load_part_000_def hand_off_absent)

theorem falsy_global_not_invoked_witness:
  "register_implementors null_page = JNull
   \<and> register_implementors null_page \<noteq> JUndefined
   \<and> \<not> truthy (register_implementors null_page)
   \<and> load_trait_Send quiet_host null_page =
       ([StorePending implementors_trait_Send],
        Inr \<lparr>register_implementors = JNull,
             pending_implementors = JObj implementors_trait_Send\<rparr>)
   \<and> load_trait_Send quiet_host
       \<lparr>register_implementors = JNum 0, pending_implementors = JUndefined\<rparr> =
       ([StorePending implementors_trait_Send],
        Inr \<lparr>register_implementors = JNum 0,
             pending_implementors = JObj implementors_trait_Send\<rparr>)
   \<and> load_trait_Send quiet_host
       \<lparr>register_implementors = JBool False, pending_implementors = JUndefined\<rparr> =
       ([StorePending implementors_trait_Send],
        Inr \<lparr>register_implementors = JBool False,
             pending_implementors = JObj implementors_trait_Send\<rparr>)"
  using falsy_global_not_invoked [of null_page quiet_host]
    falsy_global_not_invoked
      [of "\<lparr>register_implementors = JNum 0, pending_implementors = JUndefined\<rparr>" quiet_host]
    falsy_global_not_invoked
      [of "\<lparr>register_implementors = JBool False, pending_implementors = JUndefined\<rparr>"
        quiet_host]
  by (simp add: null_page_def)

subsection \<open>The pending slot keeps the last table only\<close>

text \<open>
  Claim C10. When no consumer is registered the script assigns
  \<open>window.pending_implementors\<close> whatever it held: after the load the slot holds this
  script's table. When two files are loaded one after the other on such a page, the
  table of the first is replaced by the table of the second.
\<close>

theorem pending_slot_overwritten:
  fixes window :: "'w window_scheme"
  assumes "\<not> truthy (register_implementors window)"
  shows "(\<exists>w'. snd (load_trait_Send host window) = Inr w'
            \<and> pending_implementors w' = JObj implementors_trait_Send
            \<and> register_implementors w' = register_implementors window)
       \<and> (\<exists>w'. snd (load_part_000 host window) = Inr w'
            \<and> pending_implementors w' = JObj implementors_part_000
            \<and> register_implementors w' = register_implementors window)
       \<and> (\<exists>w' w''. snd (load_part_000 host window) = Inr w'
            \<and> pending_implementors w' = JObj implementors_part_000
            \<and> snd (load_trait_Send host' w') = Inr w''
            \<and> pending_implementors w'' = JObj implementors_trait_Send
            \<and> pending_implementors w'' \<noteq> JObj implementors_part_000)
       \<and> (\<exists>w' w''. snd (load_trait_Send host window) = Inr w'
            \<and> pending_implementors w' = JObj implementors_trait_Send
            \<and> snd (load_part_000 host' w') = Inr w''
            \<and> pending_implementors w'' = JObj implementors_part_000
            \<and> pending_implementors w'' \<noteq> JObj implementors_trait_Send)"
  using assms tables_differ
  by (simp add: load_trait_Send_def load_part_000_def hand_off_absent)

theorem pending_slot_overwritten_witness:
  "\<not> truthy (register_implementors
        (fresh_page\<lparr>pending_implementors := JObj implementors_part_000\<rparr>))
   \<and> pending_implementors (fresh_page\<lparr>pending_implementors := JObj implementors_part_000\<rparr>) =
       JObj implementors_part_000
   \<and> (\<exists>w'. snd (load_trait_Send quiet_host
                (fresh_page\<lparr>pending_implementors := JObj implementors_part_000\<rparr>)) = Inr w'
         \<and> pending_implementors w' = JObj implementors_trait_Send
         \<and> pending_implementors w' \<noteq> JObj implementors_part_000)"
proof -
  let ?w = "fresh_page\<lparr>pending_implementors := JObj implementors_part_000\<rparr>"
  have absent: "\<not> truthy (register_implementors ?w)"
    by (simp add: fresh_page_def)
  have held: "pending_implementors ?w = JObj implementors_part_000"
    by simp
  from pending_slot_overwritten [OF absent, where host = quiet_host and host' = quiet_host]
  obtain w' where "snd (load_trait_Send quiet_host ?w) = Inr w'"
    and "pending_implementors w' = JObj implementors_trait_Send"
    by blast
  with tables_differ absent held show ?thesis
    by simp
qed

end
